theory Spec2Isabelle
  imports
    Complex_Main
    "HOL-Library.Multiset"
    "HOL-Library.Signed_Division"
    "HOL-Library.Product_Lexorder"
begin

section \<open>JavaScript values\<close>

text \<open>
  A JavaScript number is modelled as a mathematical real extended by the three special
  values of IEEE arithmetic that the component can produce (\<open>Infinity\<close>, \<open>-Infinity\<close>,
  \<open>NaN\<close>). Rounding of finite values is not modelled, and the negative zero is identified
  with zero.
\<close>

datatype num = Finite real | PosInfinity | NegInfinity | NaN

fun num_neg :: "num \<Rightarrow> num" where
  "num_neg (Finite a) = Finite (- a)"
| "num_neg PosInfinity = NegInfinity"
| "num_neg NegInfinity = PosInfinity"
| "num_neg NaN = NaN"

fun num_add :: "num \<Rightarrow> num \<Rightarrow> num" where
  "num_add NaN _ = NaN"
| "num_add _ NaN = NaN"
| "num_add (Finite a) (Finite b) = Finite (a + b)"
| "num_add PosInfinity NegInfinity = NaN"
| "num_add NegInfinity PosInfinity = NaN"
| "num_add PosInfinity _ = PosInfinity"
| "num_add _ PosInfinity = PosInfinity"
| "num_add NegInfinity _ = NegInfinity"
| "num_add _ NegInfinity = NegInfinity"

definition num_sub :: "num \<Rightarrow> num \<Rightarrow> num" where
  "num_sub a b = num_add a (num_neg b)"

definition inf_of_sign :: "real \<Rightarrow> num" where
  "inf_of_sign a = (if a = 0 then NaN else if 0 < a then PosInfinity else NegInfinity)"

fun num_mul :: "num \<Rightarrow> num \<Rightarrow> num" where
  "num_mul NaN _ = NaN"
| "num_mul _ NaN = NaN"
| "num_mul (Finite a) (Finite b) = Finite (a * b)"
| "num_mul (Finite a) PosInfinity = inf_of_sign a"
| "num_mul (Finite a) NegInfinity = inf_of_sign (- a)"
| "num_mul PosInfinity (Finite b) = inf_of_sign b"
| "num_mul NegInfinity (Finite b) = inf_of_sign (- b)"
| "num_mul PosInfinity PosInfinity = PosInfinity"
| "num_mul NegInfinity NegInfinity = PosInfinity"
| "num_mul PosInfinity NegInfinity = NegInfinity"
| "num_mul NegInfinity PosInfinity = NegInfinity"

text \<open>\<open>Math.min\<close> and \<open>Math.max\<close> of two arguments.\<close>

fun Math_min :: "num \<Rightarrow> num \<Rightarrow> num" where
  "Math_min NaN _ = NaN"
| "Math_min _ NaN = NaN"
| "Math_min NegInfinity _ = NegInfinity"
| "Math_min _ NegInfinity = NegInfinity"
| "Math_min PosInfinity b = b"
| "Math_min a PosInfinity = a"
| "Math_min (Finite a) (Finite b) = Finite (min a b)"

fun Math_max :: "num \<Rightarrow> num \<Rightarrow> num" where
  "Math_max NaN _ = NaN"
| "Math_max _ NaN = NaN"
| "Math_max PosInfinity _ = PosInfinity"
| "Math_max _ PosInfinity = PosInfinity"
| "Math_max NegInfinity b = b"
| "Math_max a NegInfinity = a"
| "Math_max (Finite a) (Finite b) = Finite (max a b)"

text \<open>The values a hex context can hold: \<open>string | number\<close>.\<close>

datatype jsval = Num num | Str string

datatype error =
    ReferenceError string
  | TypeError
  | SyntaxError string
  | NotSupportedError
  | Rejected string

section \<open>The hex map component\<close>

subsection \<open>Data model\<close>

text \<open>
  One entry of \<open>HexJson.hexes\<close>: the mandatory axial coordinates and the remaining
  context fields in their own order. The coordinates are integers, as the layout format
  requires.
\<close>

record hexdef =
  hex_q :: int
  hex_r :: int
  ctx_fields :: "(string \<times> jsval) list"

text \<open>
  \<open>HexJson\<close>: the layout token and the cells as \<open>Object.entries\<close> enumerates them.
\<close>

record HexJson =
  layout :: string
  hexes :: "(string \<times> hexdef) list"

type_synonym HexContext = "string \<rightharpoonup> jsval"

record corner_box =
  cmin :: "num \<times> num"
  cmax :: "num \<times> num"

text \<open>
  \<open>HexContainer\<close>: one group made by \<open>generateHex\<close>. \<open>node\<close> is the identity of the
  DOM element; the other fields are what the component reads or writes on it: the
  \<open>transform\<close>, \<open>data-key\<close> and \<open>data-value\<close> attributes, the attached context object,
  the text of the \<open>text\<close> child, the \<open>title\<close> child and the inline style
  declaration. The content of the title is written through \<open>innerHTML\<close>, which parses
  markup: \<open>title\<close> is the string assigned, and \<open>title_hexes\<close> the number of elements
  matching the selector \<open>g.hex\<close> that the assignment created inside the title.
\<close>

record HexContainer =
  node :: nat
  transform :: "num \<times> num"
  data_key :: string
  data_value :: "string option"
  hex_context :: HexContext
  label :: string
  title :: string
  title_hexes :: nat
  style :: "string \<rightharpoonup> string"

type_synonym dataset = "string \<rightharpoonup> (string \<rightharpoonup> num)"

text \<open>
  The fields of a \<open>HexMap\<close> instance. \<open>even_flag\<close> and \<open>connected_flag\<close> are the
  fields \<open>even\<close> and \<open>connected\<close>. \<open>shadowRoot\<close> is \<open>None\<close> until a shadow root is
  attached; then it lists the groups below it in document order. Four
  components of the environment are carried along: \<open>timers\<close>, the delays of the pending
  \<open>setTimeout\<close> callbacks (each one a call of \<open>_updateHexes\<close>); \<open>isConnected\<close>, the
  DOM's own record of whether the element is in a document; \<open>loading\<close>, the number of
  calls of \<open>connectedCallback\<close> suspended at the retrieval of the layout; and
  \<open>uncaught\<close>, the errors that the callbacks and the setter of \<open>data\<close> have thrown.
\<close>

record HexMap =
  rotated :: bool
  even_flag :: bool
  data :: "dataset option"
  height :: num
  width :: num
  hexJson :: "HexJson option"
  corners :: corner_box
  nRows :: num
  nQuols :: num
  labelSpec :: "HexContext \<Rightarrow> string"
  styleSpec :: "HexContext \<Rightarrow> (string \<times> string) list"
  titleSpec :: "HexContext \<Rightarrow> string"
  connected_flag :: bool
  shadowRoot :: "HexContainer list option"
  timers :: "nat list"
  isConnected :: bool
  loading :: nat
  uncaught :: "error list"

subsection \<open>Geometry\<close>

text \<open>
  \<open>size\<close>, \<open>cadence\<close>, \<open>mainPitch\<close> and \<open>crossPitch\<close> are assigned once, in the
  constructor, and never again.
\<close>

definition size_px :: real where
  "size_px = 90"

definition cadence :: real where
  "cadence = size_px * cos (pi / 6)"

definition mainPitch :: real where
  "mainPitch = cadence * 2"

definition crossPitch :: real where
  "crossPitch = size_px * 3 / 2"

definition crossDimension :: "num \<Rightarrow> num" where
  "crossDimension n = num_mul (Finite crossPitch) (num_sub n (Finite 1))"

definition mainDimension :: "num \<Rightarrow> num" where
  "mainDimension n = num_mul (Finite mainPitch) (num_add (num_sub n (Finite 1)) (Finite (1 / 2)))"

text \<open>
  \<open>coordinates(q, r)\<close>. The remainder \<open>%\<close> of JavaScript truncates towards zero, which on
  integers is \<open>smod\<close>.
\<close>

definition coordinates :: "'a HexMap_scheme \<Rightarrow> int \<Rightarrow> int \<Rightarrow> num \<times> num" where
  "coordinates this q r =
    (let offsetTest = (if even_flag this then 0 else 1 :: int);
         qOffset = (if \<not> rotated this \<and> \<bar>r smod 2\<bar> = offsetTest then cadence else 0);
         rOffset = (if rotated this \<and> \<bar>q smod 2\<bar> = offsetTest then cadence else 0)
     in (num_add
           (num_mul (Finite (if rotated this then crossPitch else mainPitch)) (Finite (of_int q)))
           (Finite qOffset),
         num_sub
           (num_sub (height this)
              (num_mul (Finite (if rotated this then mainPitch else crossPitch)) (Finite (of_int r))))
           (Finite rOffset)))"

text \<open>
  The projection as the specification words it, with the mathematical \<open>mod\<close>.
\<close>

definition project_spec :: "bool \<Rightarrow> bool \<Rightarrow> num \<Rightarrow> int \<Rightarrow> int \<Rightarrow> num \<times> num" where
  "project_spec rot evenOffset h q r =
    (let offsetTest = (if evenOffset then 0 else 1 :: int) in
     if \<not> rot then
       (let qOffset = (if \<bar>r mod 2\<bar> = offsetTest then cadence else 0)
        in (Finite (mainPitch * of_int q + qOffset),
            num_sub h (Finite (crossPitch * of_int r))))
     else
       (let rOffset = (if \<bar>q mod 2\<bar> = offsetTest then cadence else 0)
        in (Finite (crossPitch * of_int q),
            num_sub (num_sub h (Finite (mainPitch * of_int r))) (Finite rOffset))))"

subsection \<open>Draw order\<close>

text \<open>
  The getter \<open>hexes\<close>. \<open>Object.entries\<close> yields the pairs of key and definition; the
  object \<open>{ key, ...definition }\<close> built from a pair is represented by the pair itself and
  read through \<open>obj_key\<close> and \<open>obj_context\<close> below (a context field named \<open>key\<close>
  overrides the entry's key, as the spread does). \<open>toSorted\<close> is a stable sort by
  the comparator: insertion from the right, each element placed before the first one
  it does not sort after.
\<close>

type_synonym hexobj = "string \<times> hexdef"

definition compare_hex :: "hexobj \<Rightarrow> hexobj \<Rightarrow> int" where
  "compare_hex a b =
    (if hex_r (snd a) < hex_r (snd b) then 1
     else if hex_r (snd a) > hex_r (snd b) then - 1
     else if hex_q (snd a) < hex_q (snd b) then - 1
     else if hex_q (snd a) > hex_q (snd b) then 1
     else 0)"

fun insert_sorted :: "('a \<Rightarrow> 'a \<Rightarrow> int) \<Rightarrow> 'a \<Rightarrow> 'a list \<Rightarrow> 'a list" where
  "insert_sorted cmp x [] = [x]"
| "insert_sorted cmp x (y # ys) =
    (if cmp x y \<le> 0 then x # y # ys else y # insert_sorted cmp x ys)"

fun toSorted :: "('a \<Rightarrow> 'a \<Rightarrow> int) \<Rightarrow> 'a list \<Rightarrow> 'a list" where
  "toSorted cmp [] = []"
| "toSorted cmp (x # xs) = insert_sorted cmp x (toSorted cmp xs)"

definition get_hexes :: "'a HexMap_scheme \<Rightarrow> error + hexobj list" where
  "get_hexes this =
    (case hexJson this of
       None \<Rightarrow> Inl (ReferenceError ''GeoJSON layout not defined'')
     | Some j \<Rightarrow> Inr (toSorted compare_hex (hexes j)))"

text \<open>The order of the specification: \<open>r\<close> descending, then \<open>q\<close> ascending.\<close>

definition draws_before :: "hexobj \<Rightarrow> hexobj \<Rightarrow> bool" where
  "draws_before a b \<longleftrightarrow>
     hex_r (snd a) > hex_r (snd b) \<or> (hex_r (snd a) = hex_r (snd b) \<and> hex_q (snd a) < hex_q (snd b))"

definition axial :: "hexobj \<Rightarrow> int \<times> int" where
  "axial a = (hex_q (snd a), hex_r (snd a))"

text \<open>The key by which sorting with \<open>compare_hex\<close> orders the cells.\<close>

definition draw_key :: "hexobj \<Rightarrow> int \<times> int" where
  "draw_key a = (- hex_r (snd a), hex_q (snd a))"

subsection \<open>Loading the layout\<close>

text \<open>The \<open>reduce\<close> over \<open>Object.values(hexJson.hexes)\<close> in \<open>loadLayout\<close>.\<close>

definition corners_step :: "corner_box \<Rightarrow> hexobj \<Rightarrow> corner_box" where
  "corners_step acc e =
    \<lparr>cmin = (Math_min (fst (cmin acc)) (Finite (of_int (hex_q (snd e)))),
             Math_min (snd (cmin acc)) (Finite (of_int (hex_r (snd e))))),
     cmax = (Math_max (fst (cmax acc)) (Finite (of_int (hex_q (snd e)))),
             Math_max (snd (cmax acc)) (Finite (of_int (hex_r (snd e)))))\<rparr>"

definition computeCorners :: "hexobj list \<Rightarrow> corner_box" where
  "computeCorners hs =
    foldl corners_step
      \<lparr>cmin = (PosInfinity, PosInfinity), cmax = (NegInfinity, NegInfinity)\<rparr> hs"

text \<open>
  \<open>loadLayout\<close>, from the point where the response has arrived. The response is a
  rejection, or the parsed document, \<open>None\<close> when it is \<open>null\<close> or \<open>undefined\<close>. The
  result pairs the error thrown, if any, with the instance as the call leaves it.
  The pattern \<open>/q$/\<close> matches a token ending in \<open>q\<close>, \<open>/^even/\<close> one starting with
  \<open>even\<close>.
\<close>

definition loadLayout ::
  "error + HexJson option \<Rightarrow> 'a HexMap_scheme \<Rightarrow> error option \<times> 'a HexMap_scheme" where
  "loadLayout response this =
    (case response of
       Inl e \<Rightarrow> (Some e, this)
     | Inr None \<Rightarrow> (Some (ReferenceError ''Not a HexJson layout''), this\<lparr>hexJson := None\<rparr>)
     | Inr (Some j) \<Rightarrow>
        (let rot = (layout j \<noteq> [] \<and> last (layout j) = CHR ''q'');
             ev = (take 4 (layout j) = ''even'');
             cs = computeCorners (hexes j);
             nq = num_add (num_sub (fst (cmax cs)) (fst (cmin cs))) (Finite 1);
             nr = num_add (num_sub (snd (cmax cs)) (snd (cmin cs))) (Finite 1)
         in (None,
             this\<lparr>hexJson := Some j, rotated := rot, even_flag := ev, corners := cs,
                  nQuols := nq, nRows := nr,
                  width := (if rot then crossDimension nq else mainDimension nq),
                  height := (if rot then mainDimension nr else crossDimension nr)\<rparr>)))"

subsection \<open>Rendering\<close>

text \<open>
  Two functions of the platform are parameters of the functions that use them:
  \<open>toStr\<close> is \<open>Number.prototype.toString\<close>, and \<open>inner s\<close> is the number of elements
  matching the selector \<open>g.hex\<close> among the nodes that the parser makes of \<open>s\<close> when \<open>s\<close>
  is assigned to \<open>innerHTML\<close> of a \<open>title\<close> element.
\<close>

definition js_toString :: "(num \<Rightarrow> string) \<Rightarrow> jsval \<Rightarrow> string" where
  "js_toString toStr v = (case v of Str s \<Rightarrow> s | Num n \<Rightarrow> toStr n)"

definition obj_key :: "hexobj \<Rightarrow> jsval" where
  "obj_key e = (case map_of (ctx_fields (snd e)) ''key'' of Some v \<Rightarrow> v | None \<Rightarrow> Str (fst e))"

definition obj_context :: "hexobj \<Rightarrow> HexContext" where
  "obj_context e =
    (map_of (ctx_fields (snd e)))
      (''q'' \<mapsto> Num (Finite (of_int (hex_q (snd e)))),
       ''r'' \<mapsto> Num (Finite (of_int (hex_r (snd e)))),
       ''key'' \<mapsto> obj_key e)"

text \<open>
  \<open>generateHex\<close>, with the identity \<open>n\<close> of the group element it creates. The label
  is written through \<open>textContent\<close>, the title through \<open>innerHTML\<close>. The mappers are
  total functions: a mapper that throws is outside the model.
\<close>

definition generateHex ::
  "(num \<Rightarrow> string) \<Rightarrow> (string \<Rightarrow> nat) \<Rightarrow> 'a HexMap_scheme \<Rightarrow> nat \<Rightarrow> num \<times> num \<Rightarrow> hexobj
   \<Rightarrow> HexContainer" where
  "generateHex toStr inner this n xy e =
    \<lparr>node = n, transform = xy, data_key = js_toString toStr (obj_key e),
     data_value = None, hex_context = obj_context e,
     label = labelSpec this (obj_context e),
     title = titleSpec this (obj_context e),
     title_hexes = inner (titleSpec this (obj_context e)),
     style = Map.empty\<rparr>"

subsection \<open>Binding the data\<close>

text \<open>
  \<open>style.setProperty(k, v)\<close>; an empty value removes the property. The validation of
  names and values by the style engine is not modelled.
\<close>

definition setProperty :: "string \<times> string \<Rightarrow> (string \<rightharpoonup> string) \<Rightarrow> (string \<rightharpoonup> string)" where
  "setProperty kv st = (if snd kv = [] then st(fst kv := None) else st(fst kv \<mapsto> snd kv))"

text \<open>
  The body of the loop of \<open>_updateHexes\<close>, for a group that \<open>generateHex\<close> made. The
  assignment to \<open>title.innerHTML\<close> replaces the content of the title by what the
  parser makes of the new string.
\<close>

definition bindHex ::
  "(num \<Rightarrow> string) \<Rightarrow> (string \<Rightarrow> nat) \<Rightarrow> 'a HexMap_scheme \<Rightarrow> dataset \<Rightarrow> HexContainer
   \<Rightarrow> HexContainer" where
  "bindHex toStr inner this d hex =
    (let key = data_key hex;
         entry = (case d key of None \<Rightarrow> Map.empty | Some e \<Rightarrow> e);
         val = (case entry ''value'' of None \<Rightarrow> Finite 0 | Some v \<Rightarrow> v);
         count = (case entry ''count'' of None \<Rightarrow> Finite 0 | Some c \<Rightarrow> c);
         ctx = (hex_context hex)(''count'' \<mapsto> Num count, ''value'' \<mapsto> Num val)
     in hex\<lparr>data_value := Some (toStr val),
            hex_context := ctx,
            title := titleSpec this ctx,
            title_hexes := inner (titleSpec this ctx),
            style := fold setProperty (styleSpec this ctx) (style hex)\<rparr>)"

text \<open>
  The loop over \<open>querySelectorAll("g.hex")\<close>. The node list is fixed when the loop
  starts and is in document order: every group is followed by the elements matching
  \<open>g.hex\<close> inside its title. The body binds the group and replaces the content of its
  title. If the old title held a match, the next node of the list is that element,
  now detached; it has no \<open>context\<close>, so the body sets its \<open>data-value\<close> and throws
  a \<open>TypeError\<close> at \<open>hex.context.count\<close>, and the groups after it are not visited.
\<close>

fun bindGroups ::
  "(HexContainer \<Rightarrow> HexContainer) \<Rightarrow> HexContainer list \<Rightarrow> error option \<times> HexContainer list" where
  "bindGroups body [] = (None, [])"
| "bindGroups body (hex # rest) =
    (if title_hexes hex = 0
     then (case bindGroups body rest of (e, rest') \<Rightarrow> (e, body hex # rest'))
     else (Some TypeError, body hex # rest))"

text \<open>
  \<open>_updateHexes\<close>: the error it throws, if any, and the instance as it leaves it.
  Without data it returns at once; on a component that is not connected it arms a
  timer of 250 ms for another call of itself; otherwise it runs the loop.
\<close>

definition updateHexes ::
  "(num \<Rightarrow> string) \<Rightarrow> (string \<Rightarrow> nat) \<Rightarrow> 'a HexMap_scheme \<Rightarrow> error option \<times> 'a HexMap_scheme" where
  "updateHexes toStr inner this =
    (case data this of
       None \<Rightarrow> (None, this)
     | Some d \<Rightarrow>
        if \<not> connected_flag this then (None, this\<lparr>timers := timers this @ [250]\<rparr>)
        else
          (case shadowRoot this of
             None \<Rightarrow> (None, this)
           | Some hs \<Rightarrow>
              (case bindGroups (bindHex toStr inner this d) hs of
                 (e, hs') \<Rightarrow> (e, this\<lparr>shadowRoot := Some hs'\<rparr>))))"

text \<open>
  The groups below the shadow root, and the number of elements that
  \<open>querySelectorAll("g.hex")\<close> finds there: the groups and the matches inside their
  titles.
\<close>

definition groups :: "'a HexMap_scheme \<Rightarrow> HexContainer list" where
  "groups this = (case shadowRoot this of None \<Rightarrow> [] | Some hs \<Rightarrow> hs)"

definition hex_matches :: "'a HexMap_scheme \<Rightarrow> nat" where
  "hex_matches this = sum_list (map (\<lambda>h. Suc (title_hexes h)) (groups this))"

text \<open>What \<open>_updateHexes\<close> leaves alone on a group, the context apart.\<close>

definition frame :: "HexContainer \<Rightarrow> nat \<times> (num \<times> num) \<times> string \<times> string" where
  "frame h = (node h, transform h, data_key h, label h)"


text \<open>The setter of \<open>data\<close>.\<close>

definition set_data ::
  "(num \<Rightarrow> string) \<Rightarrow> (string \<Rightarrow> nat) \<Rightarrow> dataset option \<Rightarrow> 'a HexMap_scheme
   \<Rightarrow> error option \<times> 'a HexMap_scheme" where
  "set_data toStr inner newValue this = updateHexes toStr inner (this\<lparr>data := newValue\<rparr>)"

text \<open>
  \<open>_renderHexes\<close>: the error thrown, if any, the groups in draw order, and the
  instance after the call of \<open>_updateHexes\<close> that ends it. The groups are not yet
  below the shadow root then.
\<close>

definition renderHexes ::
  "(num \<Rightarrow> string) \<Rightarrow> (string \<Rightarrow> nat) \<Rightarrow> 'a HexMap_scheme
   \<Rightarrow> error option \<times> HexContainer list \<times> 'a HexMap_scheme" where
  "renderHexes toStr inner this =
    (case get_hexes this of
       Inl e \<Rightarrow> (Some e, [], this)
     | Inr defs \<Rightarrow>
        (case updateHexes toStr inner this of
           (e, this') \<Rightarrow>
             (e,
              map (\<lambda>(n, e). generateHex toStr inner this n
                              (coordinates this (hex_q (snd e)) (hex_r (snd e))) e)
                (enumerate 0 defs),
              this')))"

subsection \<open>Life cycle\<close>

text \<open>
  An error that a callback or the setter throws is not caught by the component.
\<close>

definition record_error :: "error option \<times> 'a HexMap_scheme \<Rightarrow> 'a HexMap_scheme" where
  "record_error r =
    (case fst r of None \<Rightarrow> snd r | Some e \<Rightarrow> (snd r)\<lparr>uncaught := uncaught (snd r) @ [e]\<rparr>)"

text \<open>
  The constructor, with the mappers and the parsed \<open>data\<close> attribute as arguments (the
  default mappers are not modelled: the default \<open>labelSpec\<close> throws on a context
  without a string \<open>n\<close>).
\<close>

definition new_HexMap ::
  "(num \<Rightarrow> string) \<Rightarrow> (string \<Rightarrow> nat) \<Rightarrow> (HexContext \<Rightarrow> string) \<Rightarrow> (HexContext \<Rightarrow> string) \<Rightarrow>
   (HexContext \<Rightarrow> (string \<times> string) list) \<Rightarrow> dataset option \<Rightarrow> error option \<times> HexMap" where
  "new_HexMap toStr inner lbl ttl sty initial =
    set_data toStr inner initial
      \<lparr>rotated = False, even_flag = False, data = Some Map.empty,
       height = Finite 0, width = Finite 0, hexJson = None,
       corners = \<lparr>cmin = (PosInfinity, PosInfinity), cmax = (NegInfinity, NegInfinity)\<rparr>,
       nRows = Finite 0, nQuols = Finite 0,
       labelSpec = lbl, styleSpec = sty, titleSpec = ttl,
       connected_flag = False, shadowRoot = None, timers = [], isConnected = False,
       loading = 0, uncaught = []\<rparr>"

text \<open>
  \<open>connectedCallback\<close> after its \<open>await\<close>: the layout is read, the shadow root
  attached (which the DOM refuses on an element that has one), the groups rendered and
  appended, and the flag \<open>connected\<close> set. The style sheet, the view box and the
  shared outline of the hexagon are written once and never read again; they are left
  out.
\<close>

definition connected_resume ::
  "(num \<Rightarrow> string) \<Rightarrow> (string \<Rightarrow> nat) \<Rightarrow> error + HexJson option \<Rightarrow> 'a HexMap_scheme
   \<Rightarrow> 'a HexMap_scheme" where
  "connected_resume toStr inner response this =
    (case loadLayout response this of
       (Some e, this1) \<Rightarrow> this1\<lparr>uncaught := uncaught this1 @ [e]\<rparr>
     | (None, this1) \<Rightarrow>
        (case shadowRoot this1 of
           Some _ \<Rightarrow> this1\<lparr>uncaught := uncaught this1 @ [NotSupportedError]\<rparr>
         | None \<Rightarrow>
            (case renderHexes toStr inner (this1\<lparr>shadowRoot := Some []\<rparr>) of
               (Some e, gs, this2) \<Rightarrow> this2\<lparr>uncaught := uncaught this2 @ [e]\<rparr>
             | (None, gs, this2) \<Rightarrow>
                this2\<lparr>shadowRoot := Some gs, connected_flag := True\<rparr>)))"

definition disconnectedCallback :: "'a HexMap_scheme \<Rightarrow> 'a HexMap_scheme" where
  "disconnectedCallback this = this\<lparr>connected_flag := False\<rparr>"

text \<open>
  What can happen to an instance: the host assigns \<open>data\<close>; the element enters a
  document and \<open>connectedCallback\<close> runs up to its \<open>await\<close>; the layout arrives and
  \<open>connectedCallback\<close> resumes; the element leaves the document; a pending timer
  fires. \<open>step\<close> is \<open>None\<close> for an event that cannot happen in the state.
\<close>

datatype event =
    SetData "dataset option"
  | Connected
  | LayoutArrives "error + HexJson option"
  | Disconnected
  | TimerFires

fun step ::
  "(num \<Rightarrow> string) \<Rightarrow> (string \<Rightarrow> nat) \<Rightarrow> event \<Rightarrow> 'a HexMap_scheme \<Rightarrow> 'a HexMap_scheme option" where
  "step toStr inner (SetData d) this = Some (record_error (set_data toStr inner d this))"
| "step toStr inner Connected this =
    Some (this\<lparr>isConnected := True, loading := Suc (loading this)\<rparr>)"
| "step toStr inner (LayoutArrives response) this =
    (if loading this = 0 then None
     else Some (connected_resume toStr inner response (this\<lparr>loading := loading this - 1\<rparr>)))"
| "step toStr inner Disconnected this =
    Some (disconnectedCallback (this\<lparr>isConnected := False\<rparr>))"
| "step toStr inner TimerFires this =
    (case timers this of
       [] \<Rightarrow> None
     | t # ts \<Rightarrow> Some (record_error (updateHexes toStr inner (this\<lparr>timers := ts\<rparr>))))"

fun run ::
  "(num \<Rightarrow> string) \<Rightarrow> (string \<Rightarrow> nat) \<Rightarrow> event list \<Rightarrow> 'a HexMap_scheme \<Rightarrow> 'a HexMap_scheme option" where
  "run toStr inner [] this = Some this"
| "run toStr inner (e # es) this =
    (case step toStr inner e this of None \<Rightarrow> None | Some this' \<Rightarrow> run toStr inner es this')"

section \<open>The tiered cache\<close>

text \<open>
  A string is the list of its UTF-16 code units; \<open>js\<close> gives the string of an ASCII
  literal.
\<close>

type_synonym jsstring = "nat list"

definition js :: "string \<Rightarrow> jsstring" where
  "js s = map of_char s"

text \<open>
  A \<open>TieredLookupResult\<close>: an object whose properties are values or further objects.
\<close>

datatype 'v tiered = Leaf 'v | Branch "(jsstring \<times> 'v tiered) list"

text \<open>
  What a descent can meet: \<open>undefined\<close>, \<open>null\<close>, a part of the data, or a value
  that is none of these (an inherited method, the property of a leaf), known by a
  number only.
\<close>

datatype 'v jsvalue = Undefined | Null | Data "'v tiered" | Foreign nat

text \<open>
  The fields \<open>#data\<close>, \<open>#splitter\<close> and \<open>#loadFunction\<close>, and the keys the load
  function has been called with. The promise of the load function is its result or a
  rejection.
\<close>

record 'v TieredCache =
  cache_data :: "(jsstring \<times> 'v tiered) list"
  splitter :: "jsstring \<Rightarrow> jsstring list"
  loadFunction :: "jsstring \<Rightarrow> error + (jsstring \<times> 'v tiered) list"
  load_calls :: "jsstring list"

record 'v TieredCacheConfig =
  cfg_loader :: "(jsstring \<Rightarrow> error + (jsstring \<times> 'v tiered) list) option"
  cfg_splitter :: "(jsstring \<Rightarrow> jsstring list) option"

text \<open>
  The default splitter \<open>k.trim().split(/\s+/)\<close>. The white space of \<open>trim\<close> and of
  \<open>\s\<close> is the same set of code units: tab, line feed, vertical tab, form feed,
  carriage return, space, no-break space, U+1680, U+2000 to U+200A, the line and
  paragraph separators, U+202F, U+205F, U+3000 and the byte order mark.
\<close>

definition is_space :: "nat \<Rightarrow> bool" where
  "is_space c \<longleftrightarrow>
     c \<in> set [0x09, 0x0A, 0x0B, 0x0C, 0x0D, 0x20, 0xA0, 0x1680, 0x2028, 0x2029, 0x202F,
              0x205F, 0x3000, 0xFEFF]
     \<or> (0x2000 \<le> c \<and> c \<le> 0x200A)"

definition trim :: "jsstring \<Rightarrow> jsstring" where
  "trim k = rev (dropWhile is_space (rev (dropWhile is_space k)))"

function split_ws :: "jsstring \<Rightarrow> jsstring \<Rightarrow> jsstring list" where
  "split_ws cur [] = [rev cur]"
| "split_ws cur (c # cs) =
    (if is_space c then rev cur # split_ws [] (dropWhile is_space cs)
     else split_ws (c # cur) cs)"
  by pat_completeness auto
termination
  by (relation "measure (\<lambda>(cur, cs). length cs)")
     (auto simp: length_dropWhile_le less_Suc_eq_le)

definition default_splitter :: "jsstring \<Rightarrow> jsstring list" where
  "default_splitter k = split_ws [] (trim k)"

definition new_TieredCache :: "'v TieredCacheConfig \<Rightarrow> error + 'v TieredCache" where
  "new_TieredCache config =
    (case cfg_loader config of
       None \<Rightarrow> Inl (SyntaxError ''No loader function provided'')
     | Some l \<Rightarrow>
        Inr \<lparr>cache_data = [],
             splitter = (case cfg_splitter config of None \<Rightarrow> default_splitter | Some f \<Rightarrow> f),
             loadFunction = l, load_calls = []\<rparr>)"

text \<open>
  The spread \<open>{ ...a, ...b }\<close>: the properties of \<open>a\<close> in their order, each with the
  value \<open>b\<close> gives it if \<open>b\<close> has it, then the properties only \<open>b\<close> has.
\<close>

fun assign :: "'k \<times> 'a \<Rightarrow> ('k \<times> 'a) list \<Rightarrow> ('k \<times> 'a) list" where
  "assign kv [] = [kv]"
| "assign kv (p # ps) = (if fst p = fst kv then kv # ps else p # assign kv ps)"

definition spread :: "('k \<times> 'a) list \<Rightarrow> ('k \<times> 'a) list \<Rightarrow> ('k \<times> 'a) list" where
  "spread a b = fold assign b a"

text \<open>\<open>#loader(key)\<close>: a rejection leaves the cache as it is.\<close>

definition loader :: "jsstring \<Rightarrow> 'v TieredCache \<Rightarrow> error option \<times> 'v TieredCache" where
  "loader key this =
    (let this1 = this\<lparr>load_calls := load_calls this @ [key]\<rparr> in
     case loadFunction this key of
       Inl e \<Rightarrow> (Some e, this1)
     | Inr loaded \<Rightarrow> (None, this1\<lparr>cache_data := spread (cache_data this1) loaded\<rparr>))"

text \<open>
  \<open>a[k]\<close>. On \<open>undefined\<close> and \<open>null\<close> it throws a \<open>TypeError\<close>. On an object of
  the data it is the own property \<open>k\<close> if there is one. Every other read (an
  inherited property of an object, a property of a leaf or of a value outside the
  data) is the platform's, given by the parameter \<open>other\<close>.
\<close>

definition get_prop ::
  "('v jsvalue \<Rightarrow> jsstring \<Rightarrow> error + 'v jsvalue) \<Rightarrow> 'v jsvalue \<Rightarrow> jsstring \<Rightarrow> error + 'v jsvalue" where
  "get_prop other a k =
    (case a of
       Undefined \<Rightarrow> Inl TypeError
     | Null \<Rightarrow> Inl TypeError
     | Data (Branch ps) \<Rightarrow> (case map_of ps k of Some t \<Rightarrow> Inr (Data t) | None \<Rightarrow> other a k)
     | _ \<Rightarrow> other a k)"

text \<open>\<open>levels.reduce((a, k) => a[k], start)\<close> and \<open>#get\<close>.\<close>

fun descend ::
  "('v jsvalue \<Rightarrow> jsstring \<Rightarrow> error + 'v jsvalue) \<Rightarrow> jsstring list \<Rightarrow> 'v jsvalue
   \<Rightarrow> error + 'v jsvalue" where
  "descend other [] a = Inr a"
| "descend other (k # ks) a =
    (case get_prop other a k of Inl e \<Rightarrow> Inl e | Inr a' \<Rightarrow> descend other ks a')"

definition cache_get ::
  "('v jsvalue \<Rightarrow> jsstring \<Rightarrow> error + 'v jsvalue) \<Rightarrow> jsstring list \<Rightarrow> 'v TieredCache
   \<Rightarrow> error + 'v jsvalue" where
  "cache_get other levels this = descend other levels (Data (Branch (cache_data this)))"

text \<open>
  \<open>lookupOne(key)\<close>: the promise's outcome (a value or a rejection) and the instance
  afterwards.
\<close>

definition lookupOne ::
  "('v jsvalue \<Rightarrow> jsstring \<Rightarrow> error + 'v jsvalue) \<Rightarrow> jsstring \<Rightarrow> 'v TieredCache
   \<Rightarrow> (error + 'v jsvalue) \<times> 'v TieredCache" where
  "lookupOne other key this =
    (let levels = splitter this key in
     case cache_get other levels this of
       Inr v \<Rightarrow> (Inr v, this)
     | Inl TypeError \<Rightarrow>
        (case loader key this of
           (Some e, this1) \<Rightarrow> (Inl e, this1)
         | (None, this1) \<Rightarrow> (cache_get other levels this1, this1))
     | Inl e \<Rightarrow> (Inl e, this))"

text \<open>
  A path is in the cache when every level names a property of the object the levels
  before it lead to.
\<close>

fun path_present :: "jsstring list \<Rightarrow> 'v tiered \<Rightarrow> bool" where
  "path_present [] t = True"
| "path_present (k # ks) (Leaf v) = False"
| "path_present (k # ks) (Branch ps) =
    (case map_of ps k of None \<Rightarrow> False | Some t \<Rightarrow> path_present ks t)"

text \<open>The objects of the data inherit no property of the name \<open>k\<close>.\<close>

definition not_inherited ::
  "('v jsvalue \<Rightarrow> jsstring \<Rightarrow> error + 'v jsvalue) \<Rightarrow> jsstring \<Rightarrow> bool" where
  "not_inherited other k \<longleftrightarrow> (\<forall>ps. other (Data (Branch ps)) k = Inr Undefined)"

section \<open>The session storage item\<close>

text \<open>
  \<open>sessionStorage\<close> is a map from keys to strings, without a quota. \<open>JSON.stringify\<close>
  and \<open>JSON.parse\<close> are parameters of \<open>set\<close> and \<open>get\<close>.
\<close>

type_synonym storage = "string \<rightharpoonup> string"

record StorageItem =
  item_key :: string

definition new_StorageItem :: "string \<Rightarrow> error + StorageItem" where
  "new_StorageItem k =
    (if k = [] then Inl (SyntaxError ''No key provided to StorageItem'')
     else Inr \<lparr>item_key = k\<rparr>)"

definition storage_set :: "('d \<Rightarrow> string) \<Rightarrow> StorageItem \<Rightarrow> 'd \<Rightarrow> storage \<Rightarrow> storage" where
  "storage_set stringify this d st = st(item_key this \<mapsto> stringify d)"

definition storage_get :: "(string \<Rightarrow> error + 'd) \<Rightarrow> StorageItem \<Rightarrow> storage \<Rightarrow> error + 'd" where
  "storage_get parse this st =
    (case st (item_key this) of
       None \<Rightarrow> Inl (ReferenceError ''Raw data not set'')
     | Some raw \<Rightarrow>
        if raw = [] then Inl (ReferenceError ''Raw data not set'') else parse raw)"

definition storage_clear :: "StorageItem \<Rightarrow> storage \<Rightarrow> storage" where
  "storage_clear this st = st(item_key this := None)"

section \<open>Example data\<close>

text \<open>
  A layout of four cells, a dataset for three of them (one entry without \<open>value\<close>,
  one without \<open>count\<close>), and mappers, used to instantiate the theorems below.
  \<open>demo_toStr\<close> prints the few numbers the examples need, and \<open>demo_inner\<close> counts
  the start tags \<open><g class=hex>\<close> of a string, which is what the parser makes of the
  titles of the examples.
\<close>

definition demo_layout :: HexJson where
  "demo_layout =
    \<lparr>layout = ''odd-r'',
     hexes = [(''1,1'', \<lparr>hex_q = 1, hex_r = 1, ctx_fields = [(''n'', Str ''Alpha'')]\<rparr>),
              (''2,2'', \<lparr>hex_q = 2, hex_r = 2, ctx_fields = [(''n'', Str ''Beta'')]\<rparr>),
              (''1,2'', \<lparr>hex_q = 1, hex_r = 2, ctx_fields = [(''n'', Str ''Gamma'')]\<rparr>),
              (''3,1'', \<lparr>hex_q = 3, hex_r = 1, ctx_fields = [(''n'', Str ''Delta'')]\<rparr>)]\<rparr>"

definition empty_layout :: HexJson where
  "empty_layout = \<lparr>layout = ''odd-r'', hexes = []\<rparr>"

definition demo_toStr :: "num \<Rightarrow> string" where
  "demo_toStr n =
    (if n = Finite 0 then ''0'' else if n = Finite 2 then ''2''
     else if n = Finite 5 then ''5'' else ''?'')"

fun count_tag :: "string \<Rightarrow> string \<Rightarrow> nat" where
  "count_tag tag [] = 0"
| "count_tag tag (c # cs) =
    (if take (length tag) (c # cs) = tag then 1 else 0) + count_tag tag cs"

definition demo_inner :: "string \<Rightarrow> nat" where
  "demo_inner s = count_tag ''<g class=hex>'' s"

definition demo_label :: "HexContext \<Rightarrow> string" where
  "demo_label c = (case c ''n'' of Some (Str s) \<Rightarrow> take 3 s | _ \<Rightarrow> [])"

definition demo_title :: "HexContext \<Rightarrow> string" where
  "demo_title c =
    (case c ''n'' of Some (Str s) \<Rightarrow> s | _ \<Rightarrow> []) @ '': '' @
    (case c ''count'' of Some (Num n) \<Rightarrow> demo_toStr n | _ \<Rightarrow> ''undefined'')"

text \<open>
  Three title mappers that return markup: always; as long as the context has no
  \<open>count\<close>; once the context has a \<open>count\<close>.
\<close>

definition markup_title :: "HexContext \<Rightarrow> string" where
  "markup_title c = ''<g class=hex></g>''"

definition flip_title :: "HexContext \<Rightarrow> string" where
  "flip_title c = (case c ''count'' of None \<Rightarrow> ''<g class=hex></g>'' | Some v \<Rightarrow> ''bound'')"

definition grow_title :: "HexContext \<Rightarrow> string" where
  "grow_title c = (case c ''count'' of None \<Rightarrow> ''unbound'' | Some v \<Rightarrow> ''<g class=hex></g>'')"

definition demo_style :: "HexContext \<Rightarrow> (string \<times> string) list" where
  "demo_style c = [(''fill'', ''#333'')]"

definition demo_data :: dataset where
  "demo_data =
    [''1,1'' \<mapsto> [''count'' \<mapsto> Finite 5, ''value'' \<mapsto> Finite 2],
     ''2,2'' \<mapsto> [''count'' \<mapsto> Finite 5],
     ''1,2'' \<mapsto> [''value'' \<mapsto> Finite 2]]"

text \<open>
  A new component with a given title mapper and no data; the same after its
  \<open>connectedCallback\<close> has run to its end on \<open>demo_layout\<close>; and the first with the
  mapper \<open>demo_title\<close>, as it is and with the layout loaded.
\<close>

definition new_with :: "(HexContext \<Rightarrow> string) \<Rightarrow> HexMap" where
  "new_with ttl = snd (new_HexMap demo_toStr demo_inner demo_label ttl demo_style None)"

definition rendered_with :: "(HexContext \<Rightarrow> string) \<Rightarrow> HexMap" where
  "rendered_with ttl =
    connected_resume demo_toStr demo_inner (Inr (Some demo_layout))
      ((new_with ttl)\<lparr>isConnected := True\<rparr>)"

definition demo_map :: HexMap where
  "demo_map = new_with demo_title"

definition demo_loaded :: HexMap where
  "demo_loaded = snd (loadLayout (Inr (Some demo_layout)) demo_map)"



text \<open>
  The host assigns the data, the element enters a document, leaves it while the layout
  is being retrieved, and the layout arrives.
\<close>

definition midload_trace :: "event list" where
  "midload_trace =
    [SetData (Some demo_data), Connected, Disconnected, LayoutArrives (Inr (Some demo_layout))]"

text \<open>
  What is observed of an instance: whether the element is in a document, the flag
  \<open>connected\<close>, the number of pending timers and the \<open>data-value\<close> of the groups.
\<close>

definition observe :: "'a HexMap_scheme \<Rightarrow> bool \<times> bool \<times> nat \<times> string option list option" where
  "observe s = (isConnected s, connected_flag s, length (timers s),
     map_option (map data_value) (shadowRoot s))"

text \<open>
  Two caches: an empty one whose load function returns \<open>{a: {}}\<close>, made by the
  constructor with the default splitter, and a filled one.
\<close>

definition demo_loadFunction :: "jsstring \<Rightarrow> error + (jsstring \<times> nat tiered) list" where
  "demo_loadFunction k = Inr [(js ''a'', Branch [])]"

definition demo_cache :: "nat TieredCache" where
  "demo_cache = \<lparr>cache_data = [], splitter = default_splitter,
     loadFunction = demo_loadFunction, load_calls = []\<rparr>"

definition demo_filled :: "nat TieredCache" where
  "demo_filled = \<lparr>cache_data = [(js ''a'', Branch [(js ''x'', Leaf 1)]), (js ''b'', Leaf 2)],
     splitter = default_splitter,
     loadFunction = (\<lambda>k. Inr [(js ''a'', Branch [(js ''y'', Leaf 3)]), (js ''c'', Leaf 4)]),
     load_calls = []\<rparr>"

text \<open>
  \<open>JSON.stringify\<close> and \<open>JSON.parse\<close> on the literals \<open>null\<close>, \<open>true\<close> and \<open>false\<close>.
\<close>

definition literal_stringify :: "bool option \<Rightarrow> string" where
  "literal_stringify v =
    (case v of None \<Rightarrow> ''null'' | Some True \<Rightarrow> ''true'' | Some False \<Rightarrow> ''false'')"

definition literal_parse :: "string \<Rightarrow> error + bool option" where
  "literal_parse s =
    (if s = ''null'' then Inr None
     else if s = ''true'' then Inr (Some True)
     else if s = ''false'' then Inr (Some False)
     else Inl (SyntaxError ''Unexpected token''))"

section \<open>Properties of the geometry\<close>

lemma num_sub_zero: "num_sub a (Finite 0) = a"
  by (cases a) (simp_all add: num_sub_def)

lemma abs_smod_2: "\<bar>(k::int) smod 2\<bar> = \<bar>k mod 2\<bar>"
proof (cases "k = 0")
  case True
  then show ?thesis by (simp add: signed_modulo_int_def)
next
  case False
  have "k smod 2 = sgn k * (\<bar>k\<bar> mod 2)"
    by (simp add: signed_modulo_int_def)
  with False have "\<bar>k smod 2\<bar> = \<bar>k\<bar> mod 2"
    by (simp add: abs_mult)
  moreover have "\<bar>k\<bar> mod 2 = \<bar>k mod 2\<bar>"
    by presburger
  ultimately show ?thesis by simp
qed

text \<open>
  Claim C1. For all integer axial coordinates and all four layout modes,
  \<open>coordinates\<close> computes the projection of the specification: in pointy-top mode
  \<open>x = mainPitch * q + (cadence if |r mod 2| = offsetTest else 0)\<close> and
  \<open>y = height - crossPitch * r\<close>; in flat-top mode \<open>x = crossPitch * q\<close> and
  \<open>y = height - mainPitch * r - (cadence if |q mod 2| = offsetTest else 0)\<close>.
\<close>

theorem coordinates_project_spec:
  "coordinates this q r = project_spec (rotated this) (even_flag this) (height this) q r"
  by (simp add: coordinates_def project_spec_def Let_def num_sub_zero abs_smod_2)

section \<open>Properties of the draw order\<close>

lemma compare_hex_le: "compare_hex a b \<le> 0 \<longleftrightarrow> draw_key a \<le> draw_key b"
  by (auto simp: compare_hex_def draw_key_def less_eq_prod_def)

lemma insert_sorted_insort: "insert_sorted compare_hex x xs = insort_key draw_key x xs"
  by (induction xs) (simp_all add: compare_hex_le)

lemma toSorted_sort_key: "toSorted compare_hex xs = sort_key draw_key xs"
  by (induction xs) (simp_all add: insert_sorted_insort)

lemma draws_before_key: "draws_before a b \<longleftrightarrow> draw_key a < draw_key b"
  by (auto simp: draws_before_def draw_key_def less_prod_def)

lemma axial_key: "axial a = (snd (draw_key a), - fst (draw_key a))"
  by (simp add: axial_def draw_key_def)

lemma axial_eq_key: "axial a = c \<longleftrightarrow> draw_key a = (- snd c, fst c)"
  by (auto simp: axial_def draw_key_def)

lemma compare_hex_neg: "compare_hex a b < 0 \<longleftrightarrow> draws_before a b"
  by (auto simp: compare_hex_def draws_before_def)

lemma compare_hex_zero: "compare_hex a b = 0 \<longleftrightarrow> axial a = axial b"
  by (auto simp: compare_hex_def axial_def)

lemma toSorted_mset: "mset (toSorted compare_hex xs) = mset xs"
  by (simp add: toSorted_sort_key)

lemma toSorted_positions:
  assumes "m < length (toSorted compare_hex xs)" "n < length (toSorted compare_hex xs)"
    and "draws_before (toSorted compare_hex xs ! m) (toSorted compare_hex xs ! n)"
  shows "m < n"
proof (rule ccontr)
  let ?out = "toSorted compare_hex xs"
  assume "\<not> m < n"
  then have "n \<le> m" by simp
  have "sorted (map draw_key ?out)"
    by (simp add: toSorted_sort_key)
  then have "map draw_key ?out ! n \<le> map draw_key ?out ! m"
    using \<open>n \<le> m\<close> assms(1) by (simp add: sorted_iff_nth_mono del: nth_map)
  then have "draw_key (?out ! n) \<le> draw_key (?out ! m)"
    using assms(1,2) by simp
  with assms(3) show False
    by (simp add: draws_before_key)
qed

lemma toSorted_stable:
  "filter (\<lambda>a. axial a = c) (toSorted compare_hex xs) = filter (\<lambda>a. axial a = c) xs"
  by (simp add: toSorted_sort_key axial_eq_key sort_key_stable)

lemma toSorted_keys: "map draw_key (toSorted compare_hex xs) = sort (map draw_key xs)"
proof -
  have "sort (map draw_key xs) = map draw_key (sort_key draw_key xs)"
    by (rule properties_for_sort) simp_all
  then show ?thesis by (simp add: toSorted_sort_key)
qed

lemma toSorted_order_independent:
  assumes "mset ys = mset xs"
  shows "map axial (toSorted compare_hex ys) = map axial (toSorted compare_hex xs)"
proof -
  have "sort (map draw_key ys) = sort (map draw_key xs)"
    by (rule properties_for_sort) (simp_all add: assms)
  then have "map draw_key (toSorted compare_hex ys) = map draw_key (toSorted compare_hex xs)"
    by (simp add: toSorted_keys)
  then have "map (\<lambda>k. (snd k, - fst k)) (map draw_key (toSorted compare_hex ys))
      = map (\<lambda>k. (snd k, - fst k)) (map draw_key (toSorted compare_hex xs))"
    by simp
  moreover have "axial = (\<lambda>a. (snd (draw_key a), - fst (draw_key a)))"
    by (rule ext) (rule axial_key)
  ultimately show ?thesis
    by (simp add: o_def)
qed

text \<open>
  Claim C2. The getter \<open>hexes\<close> returns the cells of the layout, all of them and
  no other, in draw order: a cell with the greater \<open>r\<close> comes before one with the
  smaller, and of two cells with the same \<open>r\<close> the one with the smaller \<open>q\<close> comes
  first; cells with the same coordinates compare equal and keep their order. The
  sequence of coordinates drawn does not depend on the order in which the layout
  lists the cells. The comparator is negative, zero or positive exactly in these
  three cases.
\<close>

theorem get_hexes_draw_order:
  assumes "hexJson this = Some j"
  shows "\<exists>out. get_hexes this = Inr out
      \<and> mset out = mset (hexes j)
      \<and> (\<forall>m n. m < length out \<and> n < length out \<and> draws_before (out ! m) (out ! n) \<longrightarrow> m < n)
      \<and> (\<forall>c. filter (\<lambda>a. axial a = c) out = filter (\<lambda>a. axial a = c) (hexes j))
      \<and> (\<forall>j'. mset (hexes j') = mset (hexes j) \<longrightarrow>
            map axial (toSorted compare_hex (hexes j')) = map axial out)
      \<and> (\<forall>a b. (compare_hex a b < 0 \<longleftrightarrow> draws_before a b)
            \<and> (compare_hex a b = 0 \<longleftrightarrow> axial a = axial b)
            \<and> (compare_hex a b > 0 \<longleftrightarrow> draws_before b a))"
proof -
  let ?out = "toSorted compare_hex (hexes j)"
  have 1: "get_hexes this = Inr ?out"
    using assms by (simp add: get_hexes_def)
  have 2: "mset ?out = mset (hexes j)"
    by (rule toSorted_mset)
  have 3: "\<forall>m n. m < length ?out \<and> n < length ?out \<and> draws_before (?out ! m) (?out ! n) \<longrightarrow> m < n"
    using toSorted_positions by blast
  have 4: "\<forall>c. filter (\<lambda>a. axial a = c) ?out = filter (\<lambda>a. axial a = c) (hexes j)"
    by (simp add: toSorted_stable)
  have 5: "\<forall>j'. mset (hexes j') = mset (hexes j) \<longrightarrow>
            map axial (toSorted compare_hex (hexes j')) = map axial ?out"
    using toSorted_order_independent by blast
  have 6: "\<forall>a b. (compare_hex a b < 0 \<longleftrightarrow> draws_before a b)
            \<and> (compare_hex a b = 0 \<longleftrightarrow> axial a = axial b)
            \<and> (compare_hex a b > 0 \<longleftrightarrow> draws_before b a)"
    by (auto simp: compare_hex_def draws_before_def axial_def)
  from 1 2 3 4 5 6 show ?thesis by blast
qed

theorem get_hexes_draw_order_witness:
  "hexJson demo_loaded = Some demo_layout
   \<and> (\<exists>out. get_hexes demo_loaded = Inr out \<and> mset out = mset (hexes demo_layout))"
proof -
  have h: "hexJson demo_loaded = Some demo_layout"
    by (simp add: demo_loaded_def loadLayout_def Let_def)
  from get_hexes_draw_order [OF h] obtain out
    where "get_hexes demo_loaded = Inr out" and "mset out = mset (hexes demo_layout)"
    by blast
  with h show ?thesis by blast
qed

section \<open>Properties of the layout bounds\<close>

lemma computeCorners_snoc: "computeCorners (hs @ [e]) = corners_step (computeCorners hs) e"
  by (simp add: computeCorners_def)

lemma computeCorners_nonempty:
  assumes "hs \<noteq> []"
  shows "computeCorners hs =
    \<lparr>cmin = (Finite (of_int (Min (set (map (hex_q \<circ> snd) hs)))),
             Finite (of_int (Min (set (map (hex_r \<circ> snd) hs))))),
     cmax = (Finite (of_int (Max (set (map (hex_q \<circ> snd) hs)))),
             Finite (of_int (Max (set (map (hex_r \<circ> snd) hs)))))\<rparr>"
  using assms
proof (induction hs rule: rev_nonempty_induct)
  case (single e)
  then show ?case
    by (simp add: computeCorners_def corners_step_def)
next
  case (snoc e hs)
  have ne: "(hex_q \<circ> snd) ` set hs \<noteq> {}" "(hex_r \<circ> snd) ` set hs \<noteq> {}"
    using snoc.hyps by simp_all
  show ?case
    using ne by (simp add: computeCorners_snoc snoc.IH corners_step_def Min_insert Max_insert
        min.commute max.commute del: image_comp) (simp add: min_def max_def)
qed

text \<open>
  Claim C4, as amended. On a layout without cells \<open>loadLayout\<close> throws nothing and
  leaves the seed of the fold as the corners: \<open>min = (Infinity, Infinity)\<close> and
  \<open>max = (-Infinity, -Infinity)\<close>. On a layout with at least one cell it throws
  nothing and the corners are the finite minima and maxima of \<open>q\<close> and \<open>r\<close>.
\<close>

theorem loadLayout_bounds:
  "(hexes j = [] \<longrightarrow>
      fst (loadLayout (Inr (Some j)) this) = None
      \<and> corners (snd (loadLayout (Inr (Some j)) this)) =
          \<lparr>cmin = (PosInfinity, PosInfinity), cmax = (NegInfinity, NegInfinity)\<rparr>)
   \<and> (hexes j \<noteq> [] \<longrightarrow>
      fst (loadLayout (Inr (Some j)) this) = None
      \<and> corners (snd (loadLayout (Inr (Some j)) this)) =
          \<lparr>cmin = (Finite (of_int (Min (set (map (hex_q \<circ> snd) (hexes j))))),
                   Finite (of_int (Min (set (map (hex_r \<circ> snd) (hexes j)))))),
           cmax = (Finite (of_int (Max (set (map (hex_q \<circ> snd) (hexes j))))),
                   Finite (of_int (Max (set (map (hex_r \<circ> snd) (hexes j))))))\<rparr>)"
proof (cases "hexes j = []")
  case True
  then show ?thesis
    by (simp add: loadLayout_def Let_def computeCorners_def)
next
  case False
  then show ?thesis
    by (simp add: loadLayout_def Let_def computeCorners_nonempty del: set_map)
qed

text \<open>
  Claim C4 as stated fails: for the layout \<open>{layout: "odd-r", hexes: {}}\<close> no error is
  thrown and the corners are infinite.
\<close>

theorem loadLayout_empty_counterexample:
  "fst (loadLayout (Inr (Some empty_layout)) demo_map) = None
   \<and> corners (snd (loadLayout (Inr (Some empty_layout)) demo_map)) =
       \<lparr>cmin = (PosInfinity, PosInfinity), cmax = (NegInfinity, NegInfinity)\<rparr>"
  by (simp add: loadLayout_def Let_def computeCorners_def empty_layout_def)

theorem loadLayout_bounds_witness:
  "hexes empty_layout = [] \<and> hexes demo_layout \<noteq> []
   \<and> corners (snd (loadLayout (Inr (Some empty_layout)) demo_map)) =
       \<lparr>cmin = (PosInfinity, PosInfinity), cmax = (NegInfinity, NegInfinity)\<rparr>
   \<and> corners (snd (loadLayout (Inr (Some demo_layout)) demo_map)) =
       \<lparr>cmin = (Finite 1, Finite 1), cmax = (Finite 3, Finite 2)\<rparr>"
proof -
  have e: "hexes empty_layout = []" by (simp add: empty_layout_def)
  have d: "hexes demo_layout \<noteq> []" by (simp add: demo_layout_def)
  have m: "Min (set (map (hex_q \<circ> snd) (hexes demo_layout))) = 1"
      "Min (set (map (hex_r \<circ> snd) (hexes demo_layout))) = 1"
      "Max (set (map (hex_q \<circ> snd) (hexes demo_layout))) = 3"
      "Max (set (map (hex_r \<circ> snd) (hexes demo_layout))) = 2"
    by (simp_all add: demo_layout_def)
  show ?thesis
    using e d m loadLayout_bounds [of empty_layout demo_map] loadLayout_bounds [of demo_layout demo_map]
    by simp
qed

section \<open>Properties of the data binding\<close>



lemma bindHex_mappers:
  "titleSpec this' = titleSpec this \<Longrightarrow> styleSpec this' = styleSpec this \<Longrightarrow>
   bindHex toStr inner this' d = bindHex toStr inner this d"
  by (rule ext) (simp add: bindHex_def)


lemma bindHex_frame: "frame (bindHex toStr inner this d h) = frame h"
  by (simp add: bindHex_def Let_def frame_def)

lemma bindHex_context_other:
  "k \<noteq> ''count'' \<Longrightarrow> k \<noteq> ''value'' \<Longrightarrow>
   hex_context (bindHex toStr inner this d h) k = hex_context h k"
  by (simp add: bindHex_def Let_def)

lemma bindGroups_Cons:
  "bindGroups body (h # hs) =
    (if title_hexes h = 0
     then (fst (bindGroups body hs), body h # snd (bindGroups body hs))
     else (Some TypeError, body h # hs))"
  by (simp split: prod.splits)

lemmas bindGroups_unfold = bindGroups.simps(1) bindGroups_Cons

lemma bindGroups_length: "length (snd (bindGroups body hs)) = length hs"
  by (induction hs) (simp_all only: bindGroups_unfold, simp_all)

lemma bindGroups_nth:
  "i < length hs \<Longrightarrow>
   snd (bindGroups body hs) ! i = body (hs ! i) \<or> snd (bindGroups body hs) ! i = hs ! i"
proof (induction hs arbitrary: i)
  case Nil
  then show ?case by simp
next
  case (Cons h hs)
  show ?case
  proof (cases i)
    case 0
    then show ?thesis by (simp only: bindGroups_unfold) simp
  next
    case (Suc j)
    with Cons.prems have "j < length hs" by simp
    from Cons.IH [OF this] Suc show ?thesis
      by (simp only: bindGroups_unfold) auto
  qed
qed

lemma bindGroups_complete_iff:
  "fst (bindGroups body hs) = None \<longleftrightarrow> (\<forall>h\<in>set hs. title_hexes h = 0)"
  by (induction hs) (simp_all only: bindGroups_unfold, auto)


lemma bindGroups_error: "fst (bindGroups body hs) = Some e \<Longrightarrow> e = TypeError"
proof (induction hs)
  case Nil
  then show ?case by simp
next
  case (Cons h hs)
  then show ?case
    by (simp only: bindGroups_unfold split: if_splits) auto
qed


lemma bindGroups_map:
  assumes "\<And>h. f (body h) = f h"
  shows "map f (snd (bindGroups body hs)) = map f hs"
  by (induction hs) (simp_all only: bindGroups_unfold, auto simp: assms)


lemma updateHexes_groups:
  assumes "data this = Some d" and "connected_flag this"
  shows "groups (snd (updateHexes toStr inner this)) =
      snd (bindGroups (bindHex toStr inner this d) (groups this))"
    and "fst (updateHexes toStr inner this) =
      fst (bindGroups (bindHex toStr inner this d) (groups this))"
  using assms
  by (cases "shadowRoot this"; simp add: updateHexes_def groups_def split: prod.splits)+


lemma updateHexes_shape:
  "snd (updateHexes toStr inner this) =
     this\<lparr>shadowRoot := shadowRoot (snd (updateHexes toStr inner this)),
          timers := timers (snd (updateHexes toStr inner this))\<rparr>"
  by (cases "data this"; cases "shadowRoot this";
      simp add: updateHexes_def split: prod.splits)

lemma updateHexes_timers:
  "timers (snd (updateHexes toStr inner this)) =
     (if data this \<noteq> None \<and> \<not> connected_flag this then timers this @ [250] else timers this)"
  by (cases "data this"; cases "shadowRoot this";
      simp add: updateHexes_def split: prod.splits)



lemma updateHexes_unbound:
  assumes "data this = None \<or> \<not> connected_flag this"
  shows "shadowRoot (snd (updateHexes toStr inner this)) = shadowRoot this"
    and "fst (updateHexes toStr inner this) = None"
  using assms by (cases "data this"; simp add: updateHexes_def)+




lemma bindGroups_reached:
  "i < length hs \<Longrightarrow> (\<forall>j<i. title_hexes (hs ! j) = 0) \<Longrightarrow>
   snd (bindGroups body hs) ! i = body (hs ! i)"
proof (induction hs arbitrary: i)
  case Nil
  then show ?case by simp
next
  case (Cons h hs)
  show ?case
  proof (cases i)
    case 0
    then show ?thesis by (simp only: bindGroups_unfold) simp
  next
    case (Suc k)
    with Cons.prems have k: "k < length hs" and h: "title_hexes h = 0"
      and rest: "\<forall>j<k. title_hexes (hs ! j) = 0"
      by auto
    from Cons.IH [OF k rest] h Suc show ?thesis
      by (simp only: bindGroups_unfold) simp
  qed
qed

lemma bindGroups_not_reached:
  "i < length hs \<Longrightarrow> j < i \<Longrightarrow> 0 < title_hexes (hs ! j) \<Longrightarrow>
   snd (bindGroups body hs) ! i = hs ! i"
proof (induction hs arbitrary: i j)
  case Nil
  then show ?case by simp
next
  case (Cons h hs)
  from Cons.prems obtain k where i: "i = Suc k" and k: "k < length hs"
    by (cases i) auto
  show ?case
  proof (cases "title_hexes h = 0")
    case False
    with i show ?thesis by (simp only: bindGroups_unfold) simp
  next
    case True
    with Cons.prems obtain l where j: "j = Suc l"
      by (cases j) auto
    with Cons.prems i have "l < k" and "0 < title_hexes (hs ! l)"
      by simp_all
    from Cons.IH [OF k this] True i show ?thesis
      by (simp only: bindGroups_unfold) simp
  qed
qed

lemma bind_defaults_reached:
  assumes "data this = Some d" and "connected_flag this" and "i < length (groups this)"
    and "\<forall>j<i. title_hexes (groups this ! j) = 0"
  shows "data_key (groups (snd (updateHexes toStr inner this)) ! i) = data_key (groups this ! i)
    \<and> (d (data_key (groups this ! i)) = None \<longrightarrow>
          hex_context (groups (snd (updateHexes toStr inner this)) ! i) ''count''
            = Some (Num (Finite 0))
          \<and> hex_context (groups (snd (updateHexes toStr inner this)) ! i) ''value''
            = Some (Num (Finite 0))
          \<and> data_value (groups (snd (updateHexes toStr inner this)) ! i) = Some (toStr (Finite 0)))
    \<and> (\<forall>e. d (data_key (groups this ! i)) = Some e \<longrightarrow>
          (e ''count'' = None \<longrightarrow>
             hex_context (groups (snd (updateHexes toStr inner this)) ! i) ''count''
               = Some (Num (Finite 0)))
          \<and> (e ''value'' = None \<longrightarrow>
                hex_context (groups (snd (updateHexes toStr inner this)) ! i) ''value''
                  = Some (Num (Finite 0))
                \<and> data_value (groups (snd (updateHexes toStr inner this)) ! i)
                  = Some (toStr (Finite 0)))
          \<and> (\<forall>c. e ''count'' = Some c \<longrightarrow>
                hex_context (groups (snd (updateHexes toStr inner this)) ! i) ''count''
                  = Some (Num c))
          \<and> (\<forall>v. e ''value'' = Some v \<longrightarrow>
                hex_context (groups (snd (updateHexes toStr inner this)) ! i) ''value''
                  = Some (Num v)
                \<and> data_value (groups (snd (updateHexes toStr inner this)) ! i)
                  = Some (toStr v)))"
proof -
  have "groups (snd (updateHexes toStr inner this)) ! i =
      bindHex toStr inner this d (groups this ! i)"
    using assms by (simp add: updateHexes_groups(1) bindGroups_reached)
  then show ?thesis
    by (auto simp: bindHex_def Let_def)
qed

lemma bind_skips_after_markup:
  assumes "data this = Some d" and "connected_flag this" and "i < length (groups this)"
    and "j < i" and "0 < title_hexes (groups this ! j)"
  shows "fst (updateHexes toStr inner this) = Some TypeError"
    and "groups (snd (updateHexes toStr inner this)) ! i = groups this ! i"
proof -
  from assms have "groups this ! j \<in> set (groups this)" by simp
  with assms(5) have "fst (bindGroups (bindHex toStr inner this d) (groups this)) \<noteq> None"
    by (auto simp: bindGroups_complete_iff)
  then show "fst (updateHexes toStr inner this) = Some TypeError"
    using bindGroups_error by (fastforce simp: updateHexes_groups(2) [OF assms(1,2)])
  show "groups (snd (updateHexes toStr inner this)) ! i = groups this ! i"
    using assms by (simp add: updateHexes_groups(1) bindGroups_not_reached)
qed

lemma bind_keeps_groups:
  "map_option (map frame) (shadowRoot (snd (updateHexes toStr inner this))) =
     map_option (map frame) (shadowRoot this)
   \<and> (\<forall>i k. i < length (groups this) \<and> k \<noteq> ''count'' \<and> k \<noteq> ''value'' \<longrightarrow>
         hex_context (groups (snd (updateHexes toStr inner this)) ! i) k =
           hex_context (groups this ! i) k)
   \<and> snd (updateHexes toStr inner this) =
       this\<lparr>shadowRoot := shadowRoot (snd (updateHexes toStr inner this)),
            timers := timers (snd (updateHexes toStr inner this))\<rparr>
   \<and> timers (snd (updateHexes toStr inner this)) =
       (if data this \<noteq> None \<and> \<not> connected_flag this then timers this @ [250] else timers this)"
proof -
  have 1: "map_option (map frame) (shadowRoot (snd (updateHexes toStr inner this))) =
     map_option (map frame) (shadowRoot this)"
    by (cases "data this"; cases "shadowRoot this";
        simp add: updateHexes_def bindGroups_map bindHex_frame split: prod.splits)
       (metis bindGroups_map bindHex_frame snd_conv)
  have 2: "hex_context (groups (snd (updateHexes toStr inner this)) ! i) k =
           hex_context (groups this ! i) k"
    if "i < length (groups this)" and "k \<noteq> ''count''" and "k \<noteq> ''value''" for i k
  proof (cases "data this = None \<or> \<not> connected_flag this")
    case True
    then have "shadowRoot (snd (updateHexes toStr inner this)) = shadowRoot this"
      by (rule updateHexes_unbound(1))
    then show ?thesis by (simp add: groups_def)
  next
    case False
    then obtain d where d: "data this = Some d" and c: "connected_flag this"
      by auto
    from bindGroups_nth [OF that(1), of "bindHex toStr inner this d"] that(2,3)
    show ?thesis
      by (auto simp: updateHexes_groups(1) [OF d c] bindHex_context_other)
  qed
  from 1 2 updateHexes_shape [of toStr inner this] updateHexes_timers [of toStr inner this]
  show ?thesis by blast
qed

lemmas run_simps = new_HexMap_def set_data_def updateHexes_def connected_resume_def
  disconnectedCallback_def loadLayout_def renderHexes_def get_hexes_def Let_def
  record_error_def new_with_def rendered_with_def
  demo_map_def demo_layout_def demo_data_def compare_hex_def generateHex_def
  bindHex_def js_toString_def obj_key_def obj_context_def demo_toStr_def demo_inner_def
  demo_title_def markup_title_def flip_title_def grow_title_def groups_def hex_matches_def






text \<open>
  Claim C6, at the input where the code departs from it. With the title mapper
  \<open>markup_title\<close>, which returns \<open><g class=hex></g>\<close>, the assignment of the dataset
  binds the first group and throws a \<open>TypeError\<close> at the element inside its old
  title. The group of key \<open>3,1\<close>, which the dataset lacks, and the two groups before
  it get no \<open>count\<close>, no \<open>value\<close> and no \<open>data-value\<close>.
\<close>

theorem markup_title_stops_bind:
  "fst (set_data demo_toStr demo_inner (Some demo_data) (rendered_with markup_title))
     = Some TypeError
   \<and> map data_key (groups (rendered_with markup_title)) = [''1,2'', ''2,2'', ''1,1'', ''3,1'']
   \<and> demo_data ''3,1'' = None
   \<and> map data_value
       (groups (snd (set_data demo_toStr demo_inner (Some demo_data) (rendered_with markup_title))))
     = [Some ''2'', None, None, None]
   \<and> map (\<lambda>h. hex_context h ''count'')
       (groups (snd (set_data demo_toStr demo_inner (Some demo_data) (rendered_with markup_title))))
     = [Some (Num (Finite 0)), None, None, None]
   \<and> map (\<lambda>h. hex_context h ''value'')
       (groups (snd (set_data demo_toStr demo_inner (Some demo_data) (rendered_with markup_title))))
     = [Some (Num (Finite 2)), None, None, None]"
  by (simp add: run_simps)


section \<open>Deferred binding and the life cycle\<close>

lemma updateHexes_deferred:
  assumes "data this = Some d" and "\<not> connected_flag this"
  shows "updateHexes toStr inner this = (None, this\<lparr>timers := timers this @ [250]\<rparr>)"
  using assms by (simp add: updateHexes_def)

lemma timer_fires_unconnected:
  assumes "\<not> connected_flag this" and "timers this = t # ts"
  shows "\<exists>this'. step toStr inner TimerFires this = Some this'
    \<and> shadowRoot this' = shadowRoot this \<and> \<not> connected_flag this'
    \<and> uncaught this' = uncaught this
    \<and> timers this' = (if data this = None then ts else ts @ [250])"
  using assms by (cases "data this") (simp_all add: updateHexes_def record_error_def)

lemma timer_fires_connected:
  assumes "connected_flag this" and "timers this = t # ts" and "data this = Some d"
  shows "\<exists>this'. step toStr inner TimerFires this = Some this'
    \<and> groups this' = snd (bindGroups (bindHex toStr inner this d) (groups this))
    \<and> timers this' = ts"
proof -
  let ?s = "this\<lparr>timers := ts\<rparr>"
  have b: "bindHex toStr inner ?s d = bindHex toStr inner this d"
    by (rule bindHex_mappers) simp_all
  have d: "data ?s = Some d" and c: "connected_flag ?s"
    using assms by simp_all
  have g: "groups ?s = groups this"
    by (simp add: groups_def)
  have t: "timers (snd (updateHexes toStr inner ?s)) = ts"
    using c by (simp add: updateHexes_timers)
  show ?thesis
    using assms(2) updateHexes_groups(1) [OF d c, of toStr inner] t
    by (cases "fst (updateHexes toStr inner ?s)")
       (simp_all add: record_error_def b g groups_def)
qed

lemma disconnected_stops_binding:
  "step toStr inner Disconnected this = Some this' \<Longrightarrow>
   \<not> connected_flag this' \<and> \<not> isConnected this'"
  by (auto simp: disconnectedCallback_def)

text \<open>
  Claim C5, at the input where the code departs from it. The data is assigned before
  the element is connected, so a bind is deferred; the element is removed while the
  layout is being retrieved; the layout arrives. Then the element is in no document,
  yet the flag \<open>connected\<close> is set and the groups are rendered and unbound. When the
  pending timer fires, the bind runs on this detached tree and writes the
  \<open>data-value\<close> of every group.
\<close>

theorem midload_teardown_bind:
  "map_option observe (run demo_toStr demo_inner midload_trace demo_map)
     = Some (False, True, 2, Some [None, None, None, None])
   \<and> map_option observe (run demo_toStr demo_inner (midload_trace @ [TimerFires]) demo_map)
     = Some (False, True, 1, Some [Some ''2'', Some ''0'', Some ''2'', Some ''0''])"
  by (simp add: midload_trace_def observe_def run_simps)

section \<open>Properties of the tiered cache\<close>

lemma map_of_assign: "map_of (assign kv ps) = (map_of ps)(fst kv \<mapsto> snd kv)"
  by (induction ps) (auto simp: fun_eq_iff)

lemma map_of_spread: "map_of (spread a b) = map_of a ++ map_of (rev b)"
  unfolding spread_def
proof (induction b arbitrary: a)
  case Nil
  then show ?case by simp
next
  case (Cons kv b)
  show ?case
    by (cases kv) (simp add: Cons.IH map_of_assign map_add_def fun_eq_iff split: option.splits)
qed

lemma map_of_rev_distinct: "distinct (map fst b) \<Longrightarrow> map_of (rev b) = map_of b"
proof (induction b)
  case Nil
  then show ?case by simp
next
  case (Cons kv b)
  then have "map_of b (fst kv) = None"
    by (simp add: map_of_eq_None_iff)
  with Cons show ?case
    by (cases kv) (auto simp: map_add_def fun_eq_iff split: option.splits)
qed

text \<open>
  Claim C10. A load that succeeds merges the loaded object into the cache by its
  top-level keys: an entry whose key the loaded object has becomes the loaded value
  as a whole, whatever the cache held below that key; every other entry stays as it
  was. The loaded object has each property once.
\<close>

theorem loader_merge_top_level:
  assumes "loadFunction this key = Inr loaded" and "distinct (map fst loaded)"
  shows "fst (loader key this) = None
    \<and> (\<forall>k v. map_of loaded k = Some v \<longrightarrow>
          map_of (cache_data (snd (loader key this))) k = Some v)
    \<and> (\<forall>k. map_of loaded k = None \<longrightarrow>
          map_of (cache_data (snd (loader key this))) k = map_of (cache_data this) k)"
  using assms
  by (simp add: loader_def Let_def map_of_spread map_of_rev_distinct map_add_def)

lemma js_literals:
  "js ''a'' = [97]" "js ''b'' = [98]" "js ''c'' = [99]" "js ''x'' = [120]" "js ''y'' = [121]"
  "js ''a b'' = [97, 32, 98]" "js ''a y'' = [97, 32, 121]" "js ''a.b.c'' = [97, 46, 98, 46, 99]"
  by (simp_all add: js_def)

theorem loader_merge_top_level_witness:
  "loadFunction demo_filled (js ''a y'') =
     Inr [(js ''a'', Branch [(js ''y'', Leaf 3)]), (js ''c'', Leaf 4)]
   \<and> distinct (map fst [(js ''a'', Branch [(js ''y'', Leaf (3::nat))]), (js ''c'', Leaf 4)])
   \<and> map_of (cache_data (snd (loader (js ''a y'') demo_filled))) (js ''a'')
       = Some (Branch [(js ''y'', Leaf 3)])
   \<and> map_of (cache_data (snd (loader (js ''a y'') demo_filled))) (js ''b'') = Some (Leaf 2)"
proof -
  have l: "loadFunction demo_filled (js ''a y'') =
      Inr [(js ''a'', Branch [(js ''y'', Leaf 3)]), (js ''c'', Leaf 4)]"
    by (simp add: demo_filled_def)
  have d: "distinct (map fst [(js ''a'', Branch [(js ''y'', Leaf (3::nat))]), (js ''c'', Leaf 4)])"
    by (simp add: js_literals)
  show ?thesis
    using loader_merge_top_level [OF l d] l d by (simp add: demo_filled_def js_literals)
qed

lemma descend_snoc:
  "descend other (ks @ [k]) a =
    (case descend other ks a of Inl e \<Rightarrow> Inl e | Inr v \<Rightarrow> get_prop other v k)"
  by (induction ks arbitrary: a) (auto split: sum.splits)

lemma get_prop_own:
  "map_of ps k = Some t \<Longrightarrow> get_prop other (Data (Branch ps)) k = Inr (Data t)"
  by (simp add: get_prop_def)

lemma get_prop_missing:
  "map_of ps k = None \<Longrightarrow> not_inherited other k \<Longrightarrow>
   get_prop other (Data (Branch ps)) k = Inr Undefined"
  by (simp add: get_prop_def not_inherited_def)

lemma descend_present:
  "path_present ks t \<Longrightarrow> \<exists>t'. descend other ks (Data t) = Inr (Data t')"
proof (induction ks t rule: path_present.induct)
  case (1 t)
  then show ?case by simp
next
  case (2 k ks v)
  then show ?case by simp
next
  case (3 k ks ps)
  then show ?case by (auto simp: get_prop_def split: option.splits)
qed

lemma last_level_miss:
  assumes "descend other ks a = Inr (Data (Branch ps))" and "map_of ps k = None"
    and "not_inherited other k"
  shows "descend other (ks @ [k]) a = Inr Undefined"
  using assms by (simp add: descend_snoc get_prop_missing)

lemma lookupOne_hit:
  assumes "cache_get other (splitter this key) this = Inr v"
  shows "lookupOne other key this = (Inr v, this)"
  using assms by (simp add: lookupOne_def)

lemma lookupOne_miss:
  assumes "cache_get other (splitter this key) this = Inl TypeError"
  shows "lookupOne other key this =
    (case loadFunction this key of
       Inl e' \<Rightarrow> (Inl e', this\<lparr>load_calls := load_calls this @ [key]\<rparr>)
     | Inr loaded \<Rightarrow>
        (let this1 = this\<lparr>load_calls := load_calls this @ [key],
                          cache_data := spread (cache_data this) loaded\<rparr>
         in (cache_get other (splitter this key) this1, this1)))"
  using assms by (simp add: lookupOne_def loader_def Let_def split: sum.splits)

lemma lookupOne_inherited:
  assumes "other (Data (Branch [])) (js ''constructor'') = Inr (Foreign n)"
    and "other (Foreign n) (js ''b'') = Inr Undefined"
  shows "lookupOne other (js ''constructor b'') demo_cache = (Inr Undefined, demo_cache)"
proof -
  have "js ''constructor b'' = js ''constructor'' @ [32] @ js ''b''"
    by (simp add: js_def)
  moreover have "\<forall>c\<in>set (js ''constructor''). \<not> is_space c"
    by (simp add: js_def is_space_def)
  moreover have "js ''constructor'' \<noteq> []"
    by (simp add: js_def)
  ultimately have "default_splitter (js ''constructor b'') = [js ''constructor'', js ''b'']"
    by (simp add: js_def default_splitter_def trim_def is_space_def)
  then show ?thesis
    using assms
    by (simp add: lookupOne_def demo_cache_def cache_get_def get_prop_def)
qed

lemma default_splitter_no_break_space:
  "default_splitter [97, 0xA0, 98] = [[97], [98]]"
  by (simp add: default_splitter_def trim_def is_space_def)

text \<open>
  Claim C8, at the inputs where the code departs from it, on a platform where the
  objects of the data inherit no property named \<open>a\<close>, \<open>b\<close> or \<open>a.b.c\<close>. On the empty
  cache made by the constructor, \<open>lookupOne("a b")\<close> finds the path \<open>a\<close>, \<open>b\<close>
  missing and loads once with the key \<open>"a b"\<close>; the loaded \<open>{a: {}}\<close> still lacks the
  path, and the call returns \<open>undefined\<close> instead of failing. \<open>lookupOne("a")\<close> and
  \<open>lookupOne("a.b.c")\<close>, of one level each, find their path missing and return
  \<open>undefined\<close> without any load.
\<close>

theorem lookupOne_last_level_miss:
  assumes "not_inherited other (js ''a'')" and "not_inherited other (js ''b'')"
    and "not_inherited other (js ''a.b.c'')"
  shows "new_TieredCache \<lparr>cfg_loader = Some demo_loadFunction, cfg_splitter = None\<rparr>
       = Inr demo_cache
   \<and> splitter demo_cache (js ''a b'') = [js ''a'', js ''b'']
   \<and> \<not> path_present [js ''a'', js ''b''] (Branch (cache_data demo_cache))
   \<and> lookupOne other (js ''a b'') demo_cache =
       (Inr Undefined,
        demo_cache\<lparr>cache_data := [(js ''a'', Branch [])], load_calls := [js ''a b'']\<rparr>)
   \<and> \<not> path_present [js ''a'', js ''b''] (Branch [(js ''a'', Branch [] :: nat tiered)])
   \<and> splitter demo_cache (js ''a'') = [js ''a'']
   \<and> \<not> path_present [js ''a''] (Branch (cache_data demo_cache))
   \<and> lookupOne other (js ''a'') demo_cache = (Inr Undefined, demo_cache)
   \<and> splitter demo_cache (js ''a.b.c'') = [js ''a.b.c'']
   \<and> lookupOne other (js ''a.b.c'') demo_cache = (Inr Undefined, demo_cache)"
proof -
  have n: "other (Data (Branch ps)) [97] = Inr Undefined"
      "other (Data (Branch ps)) [98] = Inr Undefined"
      "other (Data (Branch ps)) [97, 46, 98, 46, 99] = Inr Undefined" for ps
    using assms by (simp_all add: not_inherited_def js_literals)
  show ?thesis
    by (simp add: new_TieredCache_def demo_cache_def demo_loadFunction_def lookupOne_def
        default_splitter_def trim_def is_space_def cache_get_def get_prop_def loader_def
        spread_def Let_def js_literals n)
qed

theorem lookupOne_last_level_miss_witness:
  "not_inherited (\<lambda>a k. Inr Undefined :: error + nat jsvalue) (js ''a'')
   \<and> not_inherited (\<lambda>a k. Inr Undefined :: error + nat jsvalue) (js ''b'')
   \<and> not_inherited (\<lambda>a k. Inr Undefined :: error + nat jsvalue) (js ''a.b.c'')
   \<and> lookupOne (\<lambda>a k. Inr Undefined) (js ''a b'') demo_cache =
       (Inr Undefined,
        demo_cache\<lparr>cache_data := [(js ''a'', Branch [])], load_calls := [js ''a b'']\<rparr>)
   \<and> lookupOne (\<lambda>a k. Inr Undefined) (js ''a'') demo_cache = (Inr Undefined, demo_cache)"
proof -
  have h: "not_inherited (\<lambda>a k. Inr Undefined :: error + nat jsvalue) k" for k
    by (simp add: not_inherited_def)
  show ?thesis
    using lookupOne_last_level_miss [OF h h h] h by simp
qed

section \<open>Properties of the storage item\<close>

text \<open>
  Claim C9. For an item made with a non-empty key and a value that \<open>JSON.stringify\<close>
  turns into a non-empty text which \<open>JSON.parse\<close> turns back into the value,
  \<open>get\<close> after \<open>set\<close> returns the value; \<open>get\<close> on a key that the storage does not
  hold, and \<open>get\<close> after \<open>clear\<close>, throw a \<open>ReferenceError\<close>.
\<close>

theorem storage_roundtrip:
  assumes "new_StorageItem k = Inr item"
    and "parse (stringify d) = Inr d" and "stringify d \<noteq> []"
  shows "storage_get parse item (storage_set stringify item d st) = Inr d
    \<and> (st (item_key item) = None \<longrightarrow>
          storage_get parse item st = Inl (ReferenceError ''Raw data not set''))
    \<and> storage_get parse item (storage_clear item st) = Inl (ReferenceError ''Raw data not set'')
    \<and> item_key item = k \<and> k \<noteq> []"
  using assms
  by (auto simp: new_StorageItem_def storage_get_def storage_set_def storage_clear_def
      split: if_splits)

theorem storage_roundtrip_witness:
  "new_StorageItem ''state'' = Inr \<lparr>item_key = ''state''\<rparr>
   \<and> literal_parse (literal_stringify (Some False)) = Inr (Some False)
   \<and> literal_stringify (Some False) \<noteq> []
   \<and> storage_get literal_parse \<lparr>item_key = ''state''\<rparr>
        (storage_set literal_stringify \<lparr>item_key = ''state''\<rparr> (Some False) Map.empty)
       = Inr (Some False)
   \<and> storage_get literal_parse \<lparr>item_key = ''state''\<rparr> Map.empty
       = Inl (ReferenceError ''Raw data not set'')"
proof -
  have k: "new_StorageItem ''state'' = Inr \<lparr>item_key = ''state''\<rparr>"
    by (simp add: new_StorageItem_def)
  have p: "literal_parse (literal_stringify (Some False)) = Inr (Some False)"
    by (simp add: literal_parse_def literal_stringify_def)
  have n: "literal_stringify (Some False) \<noteq> []"
    by (simp add: literal_stringify_def)
  show ?thesis
    using storage_roundtrip [where parse = literal_parse and stringify = literal_stringify
        and d = "Some False" and st = Map.empty, OF k p n] k p n
    by simp
qed

end
